theory Spec2Isabelle
  imports Complex_Main "HOL-Library.Multiset"
begin

section \<open>Strings, as the handlers use them\<close>

text \<open>
  Python strings are modelled as HOL strings. The character tests below are the ASCII
  part of \<open>str.isspace\<close>, \<open>str.isalpha\<close>, \<open>str.isdigit\<close> and \<open>str.upper\<close>; characters
  outside ASCII are neither letters, digits nor white space here.
\<close>

definition isspace :: "char \<Rightarrow> bool" where
  "isspace c = (let n = (of_char c :: nat) in (9 \<le> n \<and> n \<le> 13) \<or> (28 \<le> n \<and> n \<le> 32))"

definition isalpha :: "char \<Rightarrow> bool" where
  "isalpha c = (let n = (of_char c :: nat) in (65 \<le> n \<and> n \<le> 90) \<or> (97 \<le> n \<and> n \<le> 122))"

definition isdigit :: "char \<Rightarrow> bool" where
  "isdigit c = (let n = (of_char c :: nat) in 48 \<le> n \<and> n \<le> 57)"

definition upper_char :: "char \<Rightarrow> char" where
  "upper_char c = (let n = (of_char c :: nat) in if 97 \<le> n \<and> n \<le> 122 then char_of (n - 32) else c)"

definition upper :: "string \<Rightarrow> string" where
  "upper s = map upper_char s"

definition strip :: "string \<Rightarrow> string" where
  "strip s = rev (dropWhile isspace (rev (dropWhile isspace s)))"

definition startswith :: "string \<Rightarrow> string \<Rightarrow> bool" where
  "startswith s p = (take (length p) s = p)"

text \<open>\<open>s.split(c)\<close> for a separator of one character: never empty.\<close>

fun split_char :: "char \<Rightarrow> string \<Rightarrow> string list" where
  "split_char c [] = [[]]"
| "split_char c (x # xs) =
     (if x = c then [] # split_char c xs
      else (case split_char c xs of [] \<Rightarrow> [[x]] | l # ls \<Rightarrow> (x # l) # ls))"

text \<open>\<open>s.split(c, 1)[1]\<close>: what follows the first separator; IndexError (None) without one.\<close>

definition split1_second :: "char \<Rightarrow> string \<Rightarrow> string option" where
  "split1_second c s = (case dropWhile (\<lambda>x. x \<noteq> c) s of [] \<Rightarrow> None | _ # rest \<Rightarrow> Some rest)"

fun join :: "string \<Rightarrow> string list \<Rightarrow> string" where
  "join sep [] = []"
| "join sep [x] = x"
| "join sep (x # y # ys) = x @ sep @ join sep (y # ys)"

text \<open>\<open>str(n)\<close> for an integer: decimal digits, a minus sign for a negative number.\<close>

definition digit_char :: "nat \<Rightarrow> char" where
  "digit_char d = char_of (48 + d)"

fun str_nat :: "nat \<Rightarrow> string" where
  "str_nat n = (if n < 10 then [digit_char n] else str_nat (n div 10) @ [digit_char (n mod 10)])"

declare str_nat.simps [simp del]

definition str_int :: "int \<Rightarrow> string" where
  "str_int i = (if i < 0 then CHR ''-'' # str_nat (nat (- i)) else str_nat (nat i))"

text \<open>
  \<open>int(s)\<close> on a string: white space around it is dropped, then an optional sign and
  decimal digits, single underscores allowed between digits. None is ValueError.
  (Callback data and command arguments are far shorter than the digit limit of
  recent interpreters.)
\<close>

definition digit_val :: "char \<Rightarrow> nat" where
  "digit_val c = of_char c - 48"

fun parse_digits :: "nat \<Rightarrow> string \<Rightarrow> nat option" where
  "parse_digits acc [] = Some acc"
| "parse_digits acc [c] = (if isdigit c then Some (10 * acc + digit_val c) else None)"
| "parse_digits acc (c # d # ds) =
     (if isdigit c then parse_digits (10 * acc + digit_val c) (d # ds)
      else if c = CHR ''_'' \<and> isdigit d then parse_digits (10 * acc + digit_val d) ds
      else None)"

definition parse_unsigned :: "string \<Rightarrow> nat option" where
  "parse_unsigned s =
     (case s of [] \<Rightarrow> None
      | c # cs \<Rightarrow> if isdigit c then parse_digits (digit_val c) cs else None)"

definition py_int :: "string \<Rightarrow> int option" where
  "py_int s =
     (case strip s of [] \<Rightarrow> None
      | c # cs \<Rightarrow>
          if c = CHR ''-'' then map_option (\<lambda>n. - int n) (parse_unsigned cs)
          else if c = CHR ''+'' then map_option int (parse_unsigned cs)
          else map_option int (parse_unsigned (c # cs)))"

datatype py_error = IndexError | ValueError | OverflowError | StorageError

text \<open>\<open>xs[i]\<close>: a negative index counts from the end, out of range raises IndexError.\<close>

definition py_index :: "'a list \<Rightarrow> int \<Rightarrow> py_error + 'a" where
  "py_index xs i =
     (if 0 \<le> i \<and> i < int (length xs) then Inr (xs ! nat i)
      else if i < 0 \<and> - int (length xs) \<le> i then Inr (xs ! nat (int (length xs) + i))
      else Inl IndexError)"

section \<open>The question bank and the per-user session\<close>

text \<open>
  A question is the dictionary the loader builds, with keys \<open>question\<close>, \<open>options\<close> and
  \<open>correct\<close>. The bank is the dictionary of subjects in insertion order.
\<close>

record question =
  question :: string
  options :: "string list"
  correct :: string

type_synonym bank = "(string \<times> question list) list"

text \<open>
  \<open>context.user_data\<close>: every handler reads it through \<open>get\<close> with a default, so the
  dictionary after \<open>clear()\<close> is the record of those defaults. The keys
  \<open>correct_<qid>\<close> that are set to True form the set \<open>correctly_answered\<close>.
\<close>

record user_data =
  subject :: "string option"
  questions :: "question list"
  index :: nat
  score :: int
  answered_in_batch :: "int set"
  current_batch_indices :: "int list"
  correctly_answered :: "int set"

definition cleared :: user_data where
  "cleared = \<lparr> subject = None, questions = [], index = 0, score = 0,
               answered_in_batch = {}, current_batch_indices = [],
               correctly_answered = {} \<rparr>"

datatype conv_state = END | SELECTING_SUBJECT | QUIZ_IN_PROGRESS

datatype outcome = Returns conv_state | Raises py_error

definition QUESTIONS_PER_BATCH :: nat where
  "QUESTIONS_PER_BATCH = 10"

text \<open>
  What a handler sends. Texts without any number in them are named by a constructor;
  the texts the properties speak of are carried in full.
\<close>

datatype reply =
    NoSubjectsLoaded
  | Welcome "string list"
  | PaymentRequired
  | SubjectLoadError string
  | NothingToMix
  | UnexpectedCallback
  | NoQuestionsPrepared
  | QuizStarting string
  | AllAnswered
  | ChooseNewSubject "string list"
  | QuestionsMissing
  | QuestionSkipped int
  | QuestionMessage string "string list"
  | NextPrompt
  | BadAnswerFormat
  | QuestionsLoadError
  | Feedback string bool string string
  | SendText string "string list option"
  | DeletePrompt
  | Cancelled

definition known_subjects :: "string list" where
  "known_subjects = [''amaliy-dasturlar'', ''dasturlash-tillari-bazasi'', ''OT'', ''KTT'']"

definition get_start_keyboard :: "bank \<Rightarrow> string list option" where
  "get_start_keyboard loaded_subjects =
     (let keyboard =
            concat (map (\<lambda>subj. case map_of loaded_subjects subj of
                                   Some (q # qs) \<Rightarrow> [''subj|'' @ subj]
                                 | _ \<Rightarrow> []) known_subjects)
            @ (if list_ex (\<lambda>(k, qs). qs \<noteq> []) loaded_subjects then [''random''] else [])
      in if keyboard = [] then None else Some keyboard)"

section \<open>Sending a batch\<close>

definition valid_option :: "string \<Rightarrow> bool" where
  "valid_option opt = (length opt > 2 \<and> opt ! 1 = CHR '')'')"

definition question_message :: "int \<Rightarrow> question \<Rightarrow> string list \<Rightarrow> reply" where
  "question_message question_global_index q_data valid_options =
     QuestionMessage
       (str_int (question_global_index + 1) @ ''. '' @ question q_data
          @ [CHR 0x0A, CHR 0x0A] @ join [CHR 0x0A] valid_options)
       (map (\<lambda>opt. ''ans|'' @ str_int question_global_index @ ''|'' @ [upper_char (opt ! 0)])
            valid_options)"

text \<open>
  The loop over the batch: a question without a usable option is reported as skipped
  and counted as answered, any other is sent with one button per option.
\<close>

fun present_batch :: "(int \<times> question) list \<Rightarrow> int set \<Rightarrow> int set \<times> reply list" where
  "present_batch [] answered = (answered, [])"
| "present_batch ((i, q_data) # rest) answered =
     (let valid_options = filter valid_option (options q_data) in
      if valid_options = []
      then (case present_batch rest (insert i answered) of
              (a, out) \<Rightarrow> (a, QuestionSkipped (i + 1) # out))
      else (case present_batch rest answered of
              (a, out) \<Rightarrow> (a, question_message i q_data valid_options # out)))"

definition send_next_question_batch :: "bank \<Rightarrow> user_data \<Rightarrow> user_data \<times> outcome \<times> reply list" where
  "send_next_question_batch loaded u =
     (let current_index = index u;
          total_questions = length (questions u)
      in if current_index \<ge> total_questions
         then (u, Returns SELECTING_SUBJECT,
               AllAnswered # (case get_start_keyboard loaded of
                                Some kb \<Rightarrow> [ChooseNewSubject kb] | None \<Rightarrow> []))
         else if questions u = []
         then (cleared, Returns END, [QuestionsMissing])
         else
           (let end_index = min (current_index + QUESTIONS_PER_BATCH) total_questions;
                batch_indices = map int [current_index ..< end_index];
                batch_questions = take (end_index - current_index) (drop current_index (questions u))
            in case present_batch (zip batch_indices batch_questions) {} of
                 (answered, out) \<Rightarrow>
                   (u \<lparr> current_batch_indices := batch_indices,
                        answered_in_batch := answered,
                        index := end_index \<rparr>,
                    Returns QUIZ_IN_PROGRESS,
                    out @ (if end_index < total_questions then [NextPrompt] else []))))"

section \<open>Answers\<close>

text \<open>The text of the option that starts with a letter: the last such option wins.\<close>

definition option_text :: "string \<Rightarrow> string list \<Rightarrow> string" where
  "option_text letter opts =
     foldl (\<lambda>found opt. if opt \<noteq> [] \<and> startswith opt letter then opt else found)
           (''('' @ letter @ '')'') opts"

definition finish_text :: "int \<Rightarrow> nat \<Rightarrow> bool \<Rightarrow> string" where
  "finish_text sc total_questions has_keyboard =
     ''Test tugadi!'' @ [CHR 0x0A] @ ''Sizning natijangiz: ''
       @ str_int sc @ ''/'' @ str_int (int total_questions) @ [CHR 0x0A]
       @ (if has_keyboard then [CHR 0x0A] @ ''Yangi fan tanlash?''
          else ''(Fan tanlashda xatolik, botni /start bilan qayta ishga tushiring)'')"

text \<open>\<open>_, qid_str, selected_letter = query.data.split("|")\<close> and \<open>int(qid_str)\<close>.\<close>

definition parse_answer :: "string \<Rightarrow> (int \<times> string) option" where
  "parse_answer data =
     (case split_char (CHR ''|'') data of
        [_, qid_str, selected_letter] \<Rightarrow>
          (case py_int qid_str of Some qid \<Rightarrow> Some (qid, selected_letter) | None \<Rightarrow> None)
      | _ \<Rightarrow> None)"

definition handle_answer :: "bank \<Rightarrow> user_data \<Rightarrow> string \<Rightarrow> user_data \<times> outcome \<times> reply list" where
  "handle_answer loaded u data =
     (case parse_answer data of
        None \<Rightarrow> (u, Returns QUIZ_IN_PROGRESS, [BadAnswerFormat])
      | Some (qid, selected_letter) \<Rightarrow>
          (let total_questions = length (questions u) in
           if questions u = [] \<or> qid \<ge> int total_questions
           then (cleared, Returns END, [QuestionsLoadError])
           else
             (let u1 = (if qid \<in> set (current_batch_indices u)
                        then u \<lparr> answered_in_batch := insert qid (answered_in_batch u) \<rparr>
                        else u)
              in case py_index (questions u) qid of
                   Inl e \<Rightarrow> (u1, Raises e, [])
                 | Inr question_data \<Rightarrow>
                     (let correct_answer_letter = correct question_data;
                          is_correct = (selected_letter = correct_answer_letter);
                          u2 = (if is_correct \<and> qid \<notin> correctly_answered u1
                                then u1 \<lparr> score := score u1 + 1,
                                         correctly_answered := insert qid (correctly_answered u1) \<rparr>
                                else u1);
                          feedback = Feedback
                                       (str_int (qid + 1) @ ''. '' @ question question_data
                                          @ [CHR 0x0A, CHR 0x0A]
                                          @ join [CHR 0x0A] (filter (\<lambda>opt. opt \<noteq> []) (options question_data)))
                                       is_correct
                                       (option_text correct_answer_letter (options question_data))
                                       (option_text selected_letter (options question_data));
                          is_last_batch = (int total_questions - 1 \<in> set (current_batch_indices u2));
                          all_in_batch_answered =
                            (card (answered_in_batch u2) \<ge> length (current_batch_indices u2))
                      in if is_last_batch \<and> all_in_batch_answered
                         then (u2, Returns SELECTING_SUBJECT,
                               [feedback,
                                SendText (finish_text (score u2) total_questions
                                            (get_start_keyboard loaded \<noteq> None))
                                         (get_start_keyboard loaded)])
                         else (u2, Returns QUIZ_IN_PROGRESS, [feedback])))))"

section \<open>The next-batch request\<close>

definition remaining_text :: "int \<Rightarrow> string" where
  "remaining_text remaining_count =
     ''Iltimos, qolgan '' @ str_int remaining_count @ '' ta savolga javob bering!''"

definition handle_next :: "bank \<Rightarrow> user_data \<Rightarrow> user_data \<times> outcome \<times> reply list" where
  "handle_next loaded u =
     (if card (answered_in_batch u) \<ge> length (current_batch_indices u)
      then (case send_next_question_batch loaded u of
              (u', oc, out) \<Rightarrow> (u', oc, DeletePrompt # out))
      else (u, Returns QUIZ_IN_PROGRESS,
            [SendText (remaining_text (int (length (current_batch_indices u))
                                       - int (card (answered_in_batch u)))) None]))"

section \<open>The subscription store and the access gate\<close>

text \<open>
  Times are microseconds since \<open>datetime.min\<close>. A document's expiry key is absent,
  present with the value None, or a time. The store is keyed by \<open>chat_id\<close>; it records
  every operation attempted on it, and each operation raises when the store is not
  available.
\<close>

datatype expiry_field = Absent | Null | At int

record user_doc =
  subscribed_at :: "int option"
  username :: "string option"
  subscription_expires_at :: expiry_field

datatype store_op = FindOne int | UpdateOne int | InsertOne int

record store =
  docs :: "int \<Rightarrow> user_doc option"
  available :: bool
  attempted :: "store_op list"

definition find_one :: "store \<Rightarrow> int \<Rightarrow> (py_error + user_doc option) \<times> store" where
  "find_one s cid =
     (if available s then Inr (docs s cid) else Inl StorageError,
      s \<lparr> attempted := attempted s @ [FindOne cid] \<rparr>)"

definition update_one :: "store \<Rightarrow> int \<Rightarrow> user_doc \<Rightarrow> (py_error + unit) \<times> store" where
  "update_one s cid d =
     (if available s
      then (Inr (), s \<lparr> docs := (docs s)(cid \<mapsto> d), attempted := attempted s @ [UpdateOne cid] \<rparr>)
      else (Inl StorageError, s \<lparr> attempted := attempted s @ [UpdateOne cid] \<rparr>))"

definition insert_one :: "store \<Rightarrow> int \<Rightarrow> user_doc \<Rightarrow> (py_error + unit) \<times> store" where
  "insert_one s cid d =
     (if available s \<and> docs s cid = None
      then (Inr (), s \<lparr> docs := (docs s)(cid \<mapsto> d), attempted := attempted s @ [InsertOne cid] \<rparr>)
      else (Inl StorageError, s \<lparr> attempted := attempted s @ [InsertOne cid] \<rparr>))"

definition is_user_subscribed :: "store \<Rightarrow> int \<Rightarrow> int \<Rightarrow> bool \<times> store" where
  "is_user_subscribed s now cid =
     (case find_one s cid of
        (Inl e, s') \<Rightarrow> (False, s')
      | (Inr None, s') \<Rightarrow> (False, s')
      | (Inr (Some user_doc), s') \<Rightarrow>
          (case subscription_expires_at user_doc of
             At t \<Rightarrow> if t < now then (False, s') else (True, s')
           | _ \<Rightarrow> (True, s')))"

section \<open>Entering and leaving the conversation\<close>

definition start :: "bank \<Rightarrow> store \<Rightarrow> int \<Rightarrow> int \<Rightarrow> user_data \<Rightarrow> (user_data \<times> outcome \<times> reply list) \<times> store" where
  "start loaded s now cid u =
     (case is_user_subscribed s now cid of
        (True, s') \<Rightarrow>
          (case get_start_keyboard loaded of
             None \<Rightarrow> ((cleared, Returns END, [NoSubjectsLoaded]), s')
           | Some kb \<Rightarrow> ((cleared, Returns SELECTING_SUBJECT, [Welcome kb]), s'))
      | (False, s') \<Rightarrow> ((u, Returns END, [PaymentRequired]), s'))"

definition cancel :: "user_data \<Rightarrow> user_data \<times> outcome \<times> reply list" where
  "cancel u = (cleared, Returns END, [Cancelled])"

section \<open>The admin command\<close>

datatype admin_reply =
    AdminOnly
  | Usage
  | BadChatId
  | DaysNotPositive
  | BadDays
  | SubscriptionUpdated int "int option"
  | SubscriberAdded int "int option"
  | Activated int "int option"
  | NotifyFailed
  | OperationFailed

definition MAX_DAYS :: int where
  "MAX_DAYS = 999999999"

definition DATETIME_MAX :: int where
  "DATETIME_MAX = 3652059 * 86400000000 - 1"

text \<open>\<open>now + timedelta(days=expiry_days)\<close>: both steps raise OverflowError out of range.\<close>

definition add_days :: "int \<Rightarrow> int \<Rightarrow> py_error + int" where
  "add_days now expiry_days =
     (if expiry_days > MAX_DAYS \<or> expiry_days < - MAX_DAYS then Inl OverflowError
      else if now + expiry_days * 86400000000 > DATETIME_MAX \<or> now + expiry_days * 86400000000 < 0
      then Inl OverflowError
      else Inr (now + expiry_days * 86400000000))"

definition notify :: "bool \<Rightarrow> int \<Rightarrow> int option \<Rightarrow> admin_reply list" where
  "notify delivered target_chat_id new_expiry_date =
     (if delivered then [Activated target_chat_id new_expiry_date] else [NotifyFailed])"

text \<open>The part of the command inside its \<open>try\<close>: whatever is raised there is reported.\<close>

definition grant :: "store \<Rightarrow> int \<Rightarrow> string option \<Rightarrow> bool \<Rightarrow> int \<Rightarrow> int option \<Rightarrow> store \<times> admin_reply list" where
  "grant s now caller_username delivered target_chat_id expiry_days =
     (case find_one s target_chat_id of
        (Inl e, s1) \<Rightarrow> (s1, [OperationFailed])
      | (Inr found, s1) \<Rightarrow>
          (case (case expiry_days of None \<Rightarrow> Inr None
                 | Some d \<Rightarrow> (case add_days now d of Inl e \<Rightarrow> Inl e | Inr t \<Rightarrow> Inr (Some t))) of
             Inl e \<Rightarrow> (s1, [OperationFailed])
           | Inr new_expiry_date \<Rightarrow>
               (case found of
                  Some user_doc \<Rightarrow>
                    (case update_one s1 target_chat_id
                            (user_doc \<lparr> subscribed_at :=
                                          Some (case subscribed_at user_doc of Some t \<Rightarrow> t | None \<Rightarrow> now),
                                        subscription_expires_at :=
                                          (case new_expiry_date of Some t \<Rightarrow> At t | None \<Rightarrow> Absent) \<rparr>) of
                       (Inl e, s2) \<Rightarrow> (s2, [OperationFailed])
                     | (Inr _, s2) \<Rightarrow>
                         (s2, SubscriptionUpdated target_chat_id new_expiry_date
                              # notify delivered target_chat_id new_expiry_date))
                | None \<Rightarrow>
                    (case insert_one s1 target_chat_id
                            \<lparr> subscribed_at = Some now, username = caller_username,
                              subscription_expires_at =
                                (case new_expiry_date of Some t \<Rightarrow> At t | None \<Rightarrow> Absent) \<rparr> of
                       (Inl e, s2) \<Rightarrow> (s2, [OperationFailed])
                     | (Inr _, s2) \<Rightarrow>
                         (s2, SubscriberAdded target_chat_id new_expiry_date
                              # notify delivered target_chat_id new_expiry_date)))))"

definition add_subscriber_command ::
  "int \<Rightarrow> store \<Rightarrow> int \<Rightarrow> int \<Rightarrow> string option \<Rightarrow> bool \<Rightarrow> string list \<Rightarrow> store \<times> admin_reply list" where
  "add_subscriber_command YOUR_ADMIN_CHAT_ID s now admin_chat_id caller_username delivered args =
     (if admin_chat_id \<noteq> YOUR_ADMIN_CHAT_ID then (s, [AdminOnly])
      else if args = [] then (s, [Usage])
      else (case py_int (args ! 0) of
              None \<Rightarrow> (s, [BadChatId])
            | Some target_chat_id \<Rightarrow>
                if length args > 1
                then (case py_int (args ! 1) of
                        None \<Rightarrow> (s, [BadDays])
                      | Some expiry_days \<Rightarrow>
                          if expiry_days \<le> 0 then (s, [DaysNotPositive])
                          else grant s now caller_username delivered target_chat_id (Some expiry_days))
                else grant s now caller_username delivered target_chat_id None))"

section \<open>Starting a quiz\<close>

text \<open>
  Python floats are IEEE doubles. A finite double is modelled by the rational it
  denotes; \<open>to_double\<close> rounds a rational to the nearest double, ties to the even
  mantissa, with 53 bits of precision and gradual underflow (the values used by the
  handlers are at most 50, so none overflows). Integer true division and float
  multiplication are correctly rounded, and \<open>round\<close> on a float rounds its exact
  value half to even.
\<close>

function ilog2 :: "int \<Rightarrow> int" where
  "ilog2 n = (if n < 2 then 0 else 1 + ilog2 (n div 2))"
  by pat_completeness auto

termination
  by (relation "measure nat") auto

declare ilog2.simps [simp del]

definition pow2 :: "int \<Rightarrow> rat" where
  "pow2 k = (if k \<ge> 0 then 2 ^ nat k else 1 / 2 ^ nat (- k))"

definition round_half_even :: "rat \<Rightarrow> int" where
  "round_half_even x =
     (let f = \<lfloor>x\<rfloor>; d = x - of_int f
      in if d < 1 / 2 then f else if d > 1 / 2 then f + 1
         else if even f then f else f + 1)"

definition binary_exponent :: "rat \<Rightarrow> int" where
  "binary_exponent x =
     (case quotient_of x of (p, q) \<Rightarrow>
        (let k = ilog2 p - ilog2 q
         in if pow2 k \<le> x then k else k - 1))"

definition to_double :: "rat \<Rightarrow> rat" where
  "to_double x =
     (if x = 0 then 0
      else (let a = \<bar>x\<bar>;
                e = max (binary_exponent a) (- 1022);
                ulp = pow2 (e - 52)
            in sgn x * of_int (round_half_even (a / ulp)) * ulp))"

definition float_div :: "nat \<Rightarrow> nat \<Rightarrow> rat" where
  "float_div a b = to_double (of_nat a / of_nat b)"

definition float_mul :: "nat \<Rightarrow> rat \<Rightarrow> rat" where
  "float_mul n x = to_double (to_double (of_nat n) * x)"

definition py_round :: "rat \<Rightarrow> int" where
  "py_round x = round_half_even x"

text \<open>
  \<open>random.shuffle\<close> and \<open>random.sample\<close> are taken as parameters: each maps the
  generator's state and its arguments to a result and the next state.
\<close>

type_synonym rng_state = nat

record random_module =
  shuffle :: "rng_state \<Rightarrow> question list \<Rightarrow> question list \<times> rng_state"
  sample :: "rng_state \<Rightarrow> question list \<Rightarrow> nat \<Rightarrow> question list \<times> rng_state"

definition random_ok :: "random_module \<Rightarrow> bool" where
  "random_ok R =
     ((\<forall>g xs. mset (fst (shuffle R g xs)) = mset xs) \<and>
      (\<forall>g xs k. k \<le> length xs \<longrightarrow>
         length (fst (sample R g xs k)) = k \<and> mset (fst (sample R g xs k)) \<subseteq># mset xs))"

text \<open>The number of questions one subject gives to the random mix (the loop's body).\<close>

definition actual_count :: "nat \<Rightarrow> nat \<Rightarrow> nat \<Rightarrow> int" where
  "actual_count total_available target_total n =
     (let proportion = (if total_available > 0 then float_div n total_available else 0);
          count = (if total_available > 0 then max 1 (py_round (float_mul target_total proportion))
                   else min 10 (int n))
      in min count (int n))"

fun random_mix :: "random_module \<Rightarrow> nat \<Rightarrow> nat \<Rightarrow> bank \<Rightarrow> rng_state \<Rightarrow> question list \<times> rng_state" where
  "random_mix R total_available target_total [] g = ([], g)"
| "random_mix R total_available target_total ((subj, subj_questions) # rest) g =
     (if subj_questions = [] then random_mix R total_available target_total rest g
      else if actual_count total_available target_total (length subj_questions) > 0
      then (case sample R g subj_questions
                   (nat (actual_count total_available target_total (length subj_questions))) of
              (picked, g1) \<Rightarrow>
                (case random_mix R total_available target_total rest g1 of
                   (others, g2) \<Rightarrow> (picked @ others, g2)))
      else random_mix R total_available target_total rest g)"

definition begin_quiz :: "bank \<Rightarrow> string \<Rightarrow> question list \<Rightarrow> user_data \<times> outcome \<times> reply list" where
  "begin_quiz loaded subject_name questions_to_ask =
     (if questions_to_ask = [] then (cleared, Returns END, [NoQuestionsPrepared])
      else (case send_next_question_batch loaded
                   \<lparr> subject = Some subject_name, questions = questions_to_ask, index = 0,
                     score = 0, answered_in_batch = {}, current_batch_indices = [],
                     correctly_answered = {} \<rparr> of
              (u, oc, out) \<Rightarrow> (u, Returns QUIZ_IN_PROGRESS, QuizStarting subject_name # out)))"

text \<open>
  The handler clears \<open>user_data\<close> before anything else, so its result does not depend
  on the session it finds.
\<close>

definition start_quiz ::
  "random_module \<Rightarrow> bank \<Rightarrow> rng_state \<Rightarrow> string \<Rightarrow> (user_data \<times> outcome \<times> reply list) \<times> rng_state" where
  "start_quiz R loaded g data =
     (if startswith data ''subj|''
      then (case split1_second (CHR ''|'') data of
              None \<Rightarrow> ((cleared, Raises IndexError, []), g)
            | Some subject_name \<Rightarrow>
                (case map_of loaded subject_name of
                   Some (q # qs) \<Rightarrow>
                     (case shuffle R g (q # qs) of
                        (questions_to_ask, g1) \<Rightarrow> (begin_quiz loaded subject_name questions_to_ask, g1))
                 | _ \<Rightarrow> ((cleared, Returns END, [SubjectLoadError subject_name]), g)))
      else if data = ''random''
      then (if \<not> list_ex (\<lambda>(k, qs). qs \<noteq> []) loaded
            then ((cleared, Returns END, [NothingToMix]), g)
            else (let total_available = sum_list (map (\<lambda>(k, qs). length qs) loaded);
                      target_total = min 50 total_available
                  in case random_mix R total_available target_total loaded g of
                       (temp_list, g1) \<Rightarrow>
                         (case shuffle R g1 temp_list of
                            (questions_to_ask, g2) \<Rightarrow>
                              (begin_quiz loaded ''Random Mix'' questions_to_ask, g2))))
      else ((cleared, Returns END, [UnexpectedCallback]), g))"

text \<open>
  The sessions a user can be in: \<open>user_data\<close> starts empty, and each handler that is
  registered for the conversation takes it to its next value.
\<close>

inductive reachable :: "bank \<Rightarrow> user_data \<Rightarrow> bool" for loaded :: bank where
  reach_cleared: "reachable loaded cleared"
| reach_start_quiz:
    "random_ok R \<Longrightarrow> start_quiz R loaded g data = ((u', oc, out), g') \<Longrightarrow> reachable loaded u'"
| reach_answer:
    "reachable loaded u \<Longrightarrow> handle_answer loaded u data = (u', oc, out) \<Longrightarrow> reachable loaded u'"
| reach_next:
    "reachable loaded u \<Longrightarrow> handle_next loaded u = (u', oc, out) \<Longrightarrow> reachable loaded u'"

section \<open>Loading the question bank\<close>

text \<open>\<open>content.replace('\r\n', '\n')\<close> and \<open>s.split('\n\n')\<close>, both from left to right.\<close>

fun replace_crlf :: "string \<Rightarrow> string" where
  "replace_crlf [] = []"
| "replace_crlf [c] = [c]"
| "replace_crlf (c # d # cs) =
     (if c = CHR 0x0D \<and> d = CHR 0x0A then CHR 0x0A # replace_crlf cs
      else c # replace_crlf (d # cs))"

fun split_blank :: "string \<Rightarrow> string list" where
  "split_blank [] = [[]]"
| "split_blank [c] = [[c]]"
| "split_blank (c # d # cs) =
     (if c = CHR 0x0A \<and> d = CHR 0x0A then [] # split_blank cs
      else (case split_blank (d # cs) of [] \<Rightarrow> [[c]] | l # ls \<Rightarrow> (c # l) # ls))"

text \<open>
  \<open>subjects[k] = v\<close> on a dictionary in insertion order: a key that is present keeps
  its place, a new one goes last. \<open>subjects[k].append(q)\<close> for a key that is present.
\<close>

fun dict_set :: "string \<Rightarrow> 'v \<Rightarrow> (string \<times> 'v) list \<Rightarrow> (string \<times> 'v) list" where
  "dict_set k v [] = [(k, v)]"
| "dict_set k v ((k', v') # rest) =
     (if k' = k then (k, v) # rest else (k', v') # dict_set k v rest)"

fun dict_append :: "string \<Rightarrow> 'v \<Rightarrow> (string \<times> 'v list) list \<Rightarrow> (string \<times> 'v list) list" where
  "dict_append k q [] = []"
| "dict_append k q ((k', qs) # rest) =
     (if k' = k then (k', qs @ [q]) # rest else (k', qs) # dict_append k q rest)"

definition option_line_ok :: "string \<Rightarrow> bool" where
  "option_line_ok opt = (length opt > 2 \<and> opt ! 1 = CHR '')'' \<and> isalpha (opt ! 0))"

text \<open>
  One turn of the loop over the blocks, on the dictionary built so far and the
  subject that is open. Every \<open>continue\<close> leaves both as they are.
\<close>

definition process_block :: "bank \<times> string option \<Rightarrow> string \<Rightarrow> bank \<times> string option" where
  "process_block st block =
     (case st of (subjects, current_subject) \<Rightarrow>
        (case split_char (CHR 0x0A) (strip block) of
           [] \<Rightarrow> st
         | first # others \<Rightarrow>
             if startswith first ''Subject:''
             then (case split1_second (CHR '':'') first of
                     None \<Rightarrow> (subjects, None)
                   | Some rest \<Rightarrow>
                       if strip rest \<noteq> [] then (dict_set (strip rest) [] subjects, Some (strip rest))
                       else (subjects, None))
             else (case current_subject of
                     None \<Rightarrow> st
                   | Some cur \<Rightarrow>
                       if length (first # others) < 6 then st
                       else if map_of subjects cur = None then st
                       else
                         (let question_text = first;
                              opts = take 4 others;
                              answer_line = others ! 4
                          in if \<not> list_all option_line_ok opts then st
                             else if \<not> startswith answer_line ''Answer:'' then st
                             else (case split1_second (CHR '':'') answer_line of
                                     None \<Rightarrow> st
                                   | Some rest \<Rightarrow>
                                       (let correct_answer_letter = strip rest
                                        in if correct_answer_letter = []
                                              \<or> length correct_answer_letter \<noteq> 1
                                              \<or> \<not> list_all isalpha correct_answer_letter
                                           then st
                                           else (dict_append cur
                                                   \<lparr> question = question_text, options = opts,
                                                     correct = upper correct_answer_letter \<rparr>
                                                   subjects,
                                                 Some cur)))))))"

definition load_blocks :: "string list \<Rightarrow> bank" where
  "load_blocks blocks = fst (foldl process_block ([], None) blocks)"

text \<open>The file's text, or None when the file is not found.\<close>

definition load_questions :: "string option \<Rightarrow> bank" where
  "load_questions file =
     (case file of
        None \<Rightarrow> []
      | Some content \<Rightarrow> load_blocks (split_blank (strip (replace_crlf content))))"

section \<open>Sample data\<close>

definition paid_store :: store where
  "paid_store =
     \<lparr> docs = [7 \<mapsto> \<lparr> subscribed_at = Some 0, username = None,
                        subscription_expires_at = At 5000000 \<rparr>,
              8 \<mapsto> \<lparr> subscribed_at = Some 0, username = None,
                        subscription_expires_at = Absent \<rparr>],
       available = True, attempted = [] \<rparr>"


section \<open>The access gate\<close>

text \<open>
  C6. The entitlement check answers False when the store has no record for the user,
  False when the record's expiry is set and strictly before the current time, True when
  the expiry is absent (or None) or not before the current time, and False whenever the
  lookup raises. It only reads: the documents of the store are the same afterwards, the
  expired record included.
\<close>

theorem is_user_subscribed_gate:
  "(\<not> available s \<longrightarrow> \<not> fst (is_user_subscribed s now cid)) \<and>
   (available s \<and> docs s cid = None \<longrightarrow> \<not> fst (is_user_subscribed s now cid)) \<and>
   (available s \<and> docs s cid = Some d \<and> subscription_expires_at d = At t \<and> t < now
      \<longrightarrow> \<not> fst (is_user_subscribed s now cid)) \<and>
   (available s \<and> docs s cid = Some d \<and>
      (subscription_expires_at d = Absent \<or> subscription_expires_at d = Null \<or>
       (\<exists>t. subscription_expires_at d = At t \<and> now \<le> t))
      \<longrightarrow> fst (is_user_subscribed s now cid)) \<and>
   docs (snd (is_user_subscribed s now cid)) = docs s \<and>
   available (snd (is_user_subscribed s now cid)) = available s"
  by (auto simp: is_user_subscribed_def find_one_def split: option.splits expiry_field.splits)

theorem is_user_subscribed_gate_witness:
  "\<not> fst (is_user_subscribed (paid_store \<lparr> available := False \<rparr>) 1 7) \<and>
   \<not> fst (is_user_subscribed paid_store 1 9) \<and>
   \<not> fst (is_user_subscribed paid_store 6000000 7) \<and>
   fst (is_user_subscribed paid_store 4000000 7) \<and>
   fst (is_user_subscribed paid_store 6000000 8) \<and>
   docs (snd (is_user_subscribed paid_store 6000000 7)) = docs paid_store"
  using is_user_subscribed_gate [where s = "paid_store \<lparr> available := False \<rparr>" and now = 1 and cid = 7]
        is_user_subscribed_gate [where s = paid_store and now = 1 and cid = 9]
        is_user_subscribed_gate [where s = paid_store and now = 6000000 and cid = 7 and t = 5000000
          and d = "\<lparr> subscribed_at = Some 0, username = None, subscription_expires_at = At 5000000 \<rparr>"]
        is_user_subscribed_gate [where s = paid_store and now = 4000000 and cid = 7
          and d = "\<lparr> subscribed_at = Some 0, username = None, subscription_expires_at = At 5000000 \<rparr>"]
        is_user_subscribed_gate [where s = paid_store and now = 6000000 and cid = 8
          and d = "\<lparr> subscribed_at = Some 0, username = None, subscription_expires_at = Absent \<rparr>"]
  by (simp add: paid_store_def)

section \<open>The admin command\<close>

lemma py_int_42: "py_int ''42'' = Some 42"
  by code_simp

lemma py_int_0: "py_int ''0'' = Some 0"
  by code_simp

text \<open>
  C9. A caller who is not the configured admin gets the permission-denied reply and the
  store is returned as it was, with no operation attempted on it. A number of days that
  is supplied and is not positive is rejected before any read or write of the store: for
  the admin with a well-formed user id the reply is the validation error about the days,
  and for every caller the store is returned as it was.
\<close>

theorem add_subscriber_command_guards:
  "(admin_chat_id \<noteq> YOUR_ADMIN_CHAT_ID \<longrightarrow>
      add_subscriber_command YOUR_ADMIN_CHAT_ID s now admin_chat_id caller_username delivered args
        = (s, [AdminOnly])) \<and>
   (admin_chat_id = YOUR_ADMIN_CHAT_ID \<and> length args > 1 \<and> py_int (args ! 0) = Some target_chat_id \<and>
    py_int (args ! 1) = Some expiry_days \<and> expiry_days \<le> 0 \<longrightarrow>
      add_subscriber_command YOUR_ADMIN_CHAT_ID s now admin_chat_id caller_username delivered args
        = (s, [DaysNotPositive])) \<and>
   (length args > 1 \<and> py_int (args ! 1) = Some expiry_days \<and> expiry_days \<le> 0 \<longrightarrow>
      fst (add_subscriber_command YOUR_ADMIN_CHAT_ID s now admin_chat_id caller_username delivered args) = s \<and>
      snd (add_subscriber_command YOUR_ADMIN_CHAT_ID s now admin_chat_id caller_username delivered args)
        \<in> {[AdminOnly], [BadChatId], [DaysNotPositive]})"
  by (auto simp: add_subscriber_command_def split: option.splits)

theorem add_subscriber_command_guards_witness:
  "add_subscriber_command 1 paid_store 1000 2 None True [''42'', ''0''] = (paid_store, [AdminOnly]) \<and>
   add_subscriber_command 1 paid_store 1000 1 None True [''42'', ''0''] = (paid_store, [DaysNotPositive])"
  using add_subscriber_command_guards [of 2 1 paid_store 1000 None True "[''42'', ''0'']"]
        add_subscriber_command_guards [of 1 1 paid_store 1000 None True "[''42'', ''0'']" 42 0]
  by (simp add: py_int_42 py_int_0)

end
